theory Spec2Isabelle
  imports Complex_Main
begin

section \<open>The QrScanner session of dist/main.js\<close>

text \<open>
  The class \<open>QrScanner\<close> drives a video element, a camera stream and a decoding engine
  from browser events. The development below embeds its methods as functions on an
  explicit session state. Everything outside the class is a parameter: the record
  \<open>platform\<close> holds what the browser answers (\<open>navigator.mediaDevices\<close>,
  \<open>getUserMedia\<close>, \<open>BarcodeDetector\<close>, \<open>ImageCapture\<close>), and what the class does to
  the outside (requests, callbacks, console output, stopped tracks) is appended to the
  \<open>trace\<close> of the session, in program order.

  JavaScript numbers are modelled by rationals, strings by \<open>string\<close>; \<open>null\<close> and
  \<open>undefined\<close> are \<open>None\<close>. A promise is modelled by the value it settles with: a
  rejection is \<open>Inl\<close> of the rejection reason, a fulfilment is \<open>Inr\<close>. The promise chains
  of \<open>start\<close> and \<open>_setFlash\<close> are run as one step each: no other event of the session is
  taken to come between two of their links. The scan loop is not: a frame that was
  requested and a decoding that is in flight wait in the session until the event that
  runs the callback or settles the promise.
\<close>

subsection \<open>Strings\<close>

text \<open>\<open>haystack.indexOf(needle) !== -1\<close>: the needle occurs as a contiguous part.\<close>

fun starts_with :: "string \<Rightarrow> string \<Rightarrow> bool" where
  "starts_with [] hs = True"
| "starts_with (n # ns) [] = False"
| "starts_with (n # ns) (h # hs) = (n = h \<and> starts_with ns hs)"

fun contains :: "string \<Rightarrow> string \<Rightarrow> bool" where
  "contains needle [] = (needle = [])"
| "contains needle (h # hs) = (starts_with needle (h # hs) \<or> contains needle hs)"

text \<open>
  The flag \<open>i\<close> of a regular expression without the flag \<open>u\<close> compares the upper-case
  forms of code units, and never lets a code unit above 127 match one below; on the
  letters of the three patterns used here this is the comparison of ASCII lower-case forms.
\<close>

definition to_lower :: "char \<Rightarrow> char" where
  "to_lower c =
     (case map_of (zip ''ABCDEFGHIJKLMNOPQRSTUVWXYZ'' ''abcdefghijklmnopqrstuvwxyz'') c of
        Some l \<Rightarrow> l
      | None \<Rightarrow> c)"

definition test_i :: "string list \<Rightarrow> string \<Rightarrow> bool" where
  "test_i alternatives subject =
     list_ex (\<lambda>a. contains a (map to_lower subject)) alternatives"

subsection \<open>Streams, tracks and constraints\<close>

datatype track_kind = VideoTrack | AudioTrack

record track =
  track_id :: nat
  kind :: track_kind
  label :: string

record stream =
  getTracks :: "track list"

definition getVideoTracks :: "stream \<Rightarrow> track list" where
  "getVideoTracks st = filter (\<lambda>t. kind t = VideoTrack) (getTracks st)"

text \<open>\<open>facingMode: 'user'\<close> is \<open>Plain\<close>, \<open>facingMode: { exact: 'user' }\<close> is \<open>Exact\<close>.\<close>

datatype facing_constraint = Plain string | Exact string

record constraint =
  width_min :: "nat option"
  facingMode :: "facing_constraint option"

record platform =
  mediaDevices :: bool
  getUserMedia :: "constraint \<Rightarrow> stream option"
  location_protocol :: string
  barcodeDetector_in_window :: bool
  getSupportedFormats :: "string list"
  imageCapture_in_window :: bool
  getPhotoCapabilities :: "track \<Rightarrow> string + string list"
  applyConstraints :: "track \<Rightarrow> bool \<Rightarrow> string option"

text \<open>
  \<open>mediaDevices\<close>: \<open>navigator.mediaDevices\<close> is there. \<open>getUserMedia c\<close>: the stream the
  request \<open>{ video: c }\<close> is fulfilled with, or \<open>None\<close> when it is rejected.
  \<open>getPhotoCapabilities t\<close>: the \<open>fillLightMode\<close> list of the capabilities of track \<open>t\<close>, or
  the reason of the rejection. \<open>applyConstraints t on\<close>: \<open>None\<close> when
  \<open>{ advanced: [{ torch: on }] }\<close> is applied to \<open>t\<close>, or the reason of the rejection.
\<close>

subsection \<open>Camera acquisition\<close>

definition CAMERA_NOT_FOUND :: string where
  "CAMERA_NOT_FOUND = ''Camera not found.''"

text \<open>
  \<open>_getMatchingCameraStream\<close>: the requests made, in order, and the settlement. Every
  rejected request is caught and followed by the call on the rest of the list.
\<close>

fun getMatchingCameraStream ::
  "platform \<Rightarrow> constraint list \<Rightarrow> constraint list \<times> (string + stream)" where
  "getMatchingCameraStream p [] = ([], Inl CAMERA_NOT_FOUND)"
| "getMatchingCameraStream p (c # constraintsToTry) =
     (if \<not> mediaDevices p then ([], Inl CAMERA_NOT_FOUND)
      else (case getUserMedia p c of
              Some st \<Rightarrow> ([c], Inr st)
            | None \<Rightarrow>
                (let (requests, r) = getMatchingCameraStream p constraintsToTry
                 in (c # requests, r))))"

text \<open>
  The candidate list of \<open>_getCameraStream\<close>. A facing mode that is \<open>undefined\<close>, \<open>null\<close> or
  the empty string is falsy and leaves the three candidates without a facing mode.
\<close>

definition constraintsToTry :: "string option \<Rightarrow> bool \<Rightarrow> constraint list" where
  "constraintsToTry fm exact =
     (let candidates =
            [\<lparr>width_min = Some 1024, facingMode = None\<rparr>,
             \<lparr>width_min = Some 768, facingMode = None\<rparr>,
             \<lparr>width_min = None, facingMode = None\<rparr>]
      in (case fm of
            None \<Rightarrow> candidates
          | Some m \<Rightarrow>
              if m = [] then candidates
              else map (\<lambda>c. c\<lparr>facingMode := Some (if exact then Exact m else Plain m)\<rparr>)
                     candidates))"

definition getCameraStream ::
  "platform \<Rightarrow> string option \<Rightarrow> bool \<Rightarrow> constraint list \<times> (string + stream)" where
  "getCameraStream p fm exact = getMatchingCameraStream p (constraintsToTry fm exact)"

text \<open>\<open>_getFacingMode\<close>: read off the label of the first video track.\<close>

definition getFacingMode :: "stream \<Rightarrow> string option" where
  "getFacingMode videoStream =
     (case getVideoTracks videoStream of
        [] \<Rightarrow> None
      | videoTrack # _ \<Rightarrow>
          if test_i [''rear'', ''back'', ''environment''] (label videoTrack)
          then Some ''environment''
          else if test_i [''front'', ''user'', ''face''] (label videoTrack)
          then Some ''user''
          else None)"

subsection \<open>The session\<close>

record rect =
  rect_x :: rat
  rect_y :: rat
  rect_width :: rat
  rect_height :: rat

record video =
  srcObject :: "stream option"
  video_paused :: bool
  ended :: bool
  readyState :: nat
  videoWidth :: nat
  videoHeight :: nat
  style_transform :: string

datatype qr_engine = BarcodeDetector nat | Worker nat

text \<open>
  The error handler of a session: the method \<open>_onDecodeError\<close> of the class, or the
  callback the caller gave to the constructor (named by a number).
\<close>

datatype error_handler = DefaultHandler | CallerHandler nat

datatype effect =
    GetUserMedia constraint
  | TrackStop nat
  | VideoPlay
  | VideoPause
  | RequestAnimationFrame
  | ScanImage qr_engine
  | OnDecode string
  | OnDecodeError nat string
  | ConsoleLog string
  | ConsoleWarn string
  | CreateQrEngine qr_engine
  | PostMessage qr_engine string
  | ApplyTorch nat bool

record session =
  video :: video
  canvas_width :: rat
  canvas_height :: rat
  preferredFacingMode :: "string option"
  active :: bool
  paused :: bool
  flashOn :: bool
  onDecodeError :: error_handler
  sourceRect :: rect
  qrEnginePromise :: qr_engine
  offTimeout :: "nat option"
  listening :: bool
  document_hidden :: bool
  clock :: nat
  frames_requested :: nat
  decodes_in_flight :: nat
  engines_created :: nat
  trace :: "effect list"

text \<open>
  \<open>offTimeout\<close> is the time at which the pending release timer is due, \<open>None\<close> for \<open>null\<close>.
  \<open>listening\<close>: the three event listeners of the constructor are attached.
  \<open>frames_requested\<close> counts the callbacks handed to \<open>requestAnimationFrame\<close> that have not
  run yet, \<open>decodes_in_flight\<close> the \<open>scanImage\<close> promises that have not settled yet, and
  \<open>engines_created\<close> the engines made so far, which numbers them.
\<close>

definition emit :: "effect \<Rightarrow> session \<Rightarrow> session" where
  "emit e s = s\<lparr>trace := trace s @ [e]\<rparr>"

definition emits :: "effect list \<Rightarrow> session \<Rightarrow> session" where
  "emits es s = s\<lparr>trace := trace s @ es\<rparr>"

definition DEFAULT_CANVAS_SIZE :: rat where
  "DEFAULT_CANVAS_SIZE = 400"

definition NO_QR_CODE_FOUND :: string where
  "NO_QR_CODE_FOUND = ''No QR code found''"

subsection \<open>Region of interest\<close>

text \<open>
  \<open>Math.round\<close> rounds to the nearest integer, a half upwards. The product
  \<open>2 / 3 * smallestDimension\<close> is taken exactly here; lemma \<open>js_round_double_product\<close>
  below shows that the product as doubles compute it rounds to the same integer for every
  dimension a video can have.
\<close>

definition js_round :: "rat \<Rightarrow> int" where
  "js_round q = \<lfloor>q + 1 / 2\<rfloor>"

definition updateSourceRect :: "session \<Rightarrow> session" where
  "updateSourceRect s =
     (let smallestDimension = min (videoWidth (video s)) (videoHeight (video s));
          sourceRectSize = js_round (2 / 3 * of_nat smallestDimension)
      in s\<lparr>sourceRect :=
             \<lparr>rect_x = (of_nat (videoWidth (video s)) - of_int sourceRectSize) / 2,
              rect_y = (of_nat (videoHeight (video s)) - of_int sourceRectSize) / 2,
              rect_width = of_int sourceRectSize,
              rect_height = of_int sourceRectSize\<rparr>\<rparr>)"

subsection \<open>Engine creation and construction\<close>

text \<open>
  \<open>createQrEngine\<close>, for the \<open>n\<close>-th engine made: a native detector when the formats the
  platform reports contain \<open>qr_code\<close>, a new worker otherwise.
\<close>

definition createQrEngine :: "platform \<Rightarrow> nat \<Rightarrow> qr_engine" where
  "createQrEngine p n =
     (let supportedFormats =
            (if barcodeDetector_in_window p then getSupportedFormats p else [])
      in if ''qr_code'' \<in> set supportedFormats then BarcodeDetector n else Worker n)"

text \<open>The assignment \<open>this._qrEnginePromise = QrScanner.createQrEngine()\<close>.\<close>

definition assignQrEngine :: "platform \<Rightarrow> session \<Rightarrow> session" where
  "assignQrEngine p s =
     (let engine = createQrEngine p (engines_created s)
      in emit (CreateQrEngine engine)
           (s\<lparr>qrEnginePromise := engine, engines_created := Suc (engines_created s)\<rparr>))"

text \<open>
  The third argument of the constructor: left out, a number, or a callback. The fourth and
  fifth argument are \<open>None\<close> when left out, and then take their defaults.
\<close>

datatype third_argument = Omitted | Number rat | Callback nat

definition DEPRECATED :: string where
  "DEPRECATED = ''You're using a deprecated version of the QrScanner constructor which will be removed in the future''"

definition constructor ::
  "platform \<Rightarrow> video \<Rightarrow> bool \<Rightarrow> third_argument \<Rightarrow> rat option \<Rightarrow> string option \<Rightarrow> session" where
  "constructor p v hidden canvasSizeOrOnDecodeError canvasSize_arg preferredFacingMode_arg =
     (let canvasSize0 = (case canvasSize_arg of None \<Rightarrow> DEFAULT_CANVAS_SIZE | Some n \<Rightarrow> n);
          canvasSize =
            (case canvasSizeOrOnDecodeError of Number n \<Rightarrow> n | _ \<Rightarrow> canvasSize0);
          handler =
            (case canvasSizeOrOnDecodeError of Callback k \<Rightarrow> CallerHandler k
             | _ \<Rightarrow> DefaultHandler);
          warnings =
            (case canvasSizeOrOnDecodeError of Number n \<Rightarrow> [ConsoleWarn DEPRECATED]
             | _ \<Rightarrow> [])
      in assignQrEngine p
           \<lparr>video = v,
            canvas_width = canvasSize,
            canvas_height = canvasSize,
            preferredFacingMode =
              (case preferredFacingMode_arg of None \<Rightarrow> Some ''environment''
               | Some m \<Rightarrow> Some m),
            active = False,
            paused = False,
            flashOn = False,
            onDecodeError = handler,
            sourceRect =
              \<lparr>rect_x = 0, rect_y = 0, rect_width = canvasSize, rect_height = canvasSize\<rparr>,
            qrEnginePromise = Worker 0,
            offTimeout = None,
            listening = True,
            document_hidden = hidden,
            clock = 0,
            frames_requested = 0,
            decodes_in_flight = 0,
            engines_created = 0,
            trace = warnings\<rparr>)"

text \<open>
  The field \<open>qrEnginePromise\<close> of the record above is a placeholder that \<open>assignQrEngine\<close>
  overwrites at once, as the last statement of the constructor does.
\<close>

subsection \<open>Start, pause, stop\<close>

definition video_play :: "session \<Rightarrow> session" where
  "video_play s = emit VideoPlay (s\<lparr>video := (video s)\<lparr>video_paused := False\<rparr>\<rparr>)"

definition video_pause :: "session \<Rightarrow> session" where
  "video_pause s = emit VideoPause (s\<lparr>video := (video s)\<lparr>video_paused := True\<rparr>\<rparr>)"

definition setVideoMirror :: "string option \<Rightarrow> session \<Rightarrow> session" where
  "setVideoMirror fm s =
     (let scaleFactor = (if fm = Some ''user'' then ''-1'' else ''1'')
      in s\<lparr>video := (video s)\<lparr>style_transform := ''scaleX('' @ scaleFactor @ '')''\<rparr>\<rparr>)"

definition opposite :: "string option \<Rightarrow> string option" where
  "opposite fm = (if fm = Some ''environment'' then Some ''user'' else Some ''environment'')"

definition HTTPS_WARNING :: string where
  "HTTPS_WARNING = ''The camera stream is only accessible if the page is transferred via https.''"

text \<open>
  The links of the promise chain of \<open>start\<close> after the two early returns and the case of
  a stream that is still attached: the acquisition with the preferred facing mode made
  exact, on its rejection the second acquisition, the attachment of the stream, and the
  last \<open>catch\<close>.
\<close>

definition acquire :: "platform \<Rightarrow> session \<Rightarrow> (string + unit) \<times> session" where
  "acquire p s =
     (let fm = preferredFacingMode s;
          (requests1, r1) = getCameraStream p fm True;
          s1 = emits (map GetUserMedia requests1) s;
          (fm2, requests2, r2) =
            (case r1 of
               Inr st \<Rightarrow> (fm, [], r1)
             | Inl e \<Rightarrow> (opposite fm, getCameraStream p None False));
          s2 = emits (map GetUserMedia requests2) s1
      in (case r2 of
            Inr st \<Rightarrow>
              (let fm3 = (case getFacingMode st of Some m \<Rightarrow> Some m | None \<Rightarrow> fm2)
               in (Inr (),
                   setVideoMirror fm3 (video_play (s2\<lparr>video := (video s2)\<lparr>srcObject := Some st\<rparr>\<rparr>))))
          | Inl e \<Rightarrow> (Inl e, s2\<lparr>active := False\<rparr>)))"

definition start :: "platform \<Rightarrow> session \<Rightarrow> (string + unit) \<times> session" where
  "start p s =
     (if active s \<and> \<not> paused s then (Inr (), s)
      else
        (let s1 = (if location_protocol p \<noteq> ''https:'' then emit (ConsoleWarn HTTPS_WARNING) s
                   else s);
             s2 = s1\<lparr>active := True, paused := False\<rparr>
         in if document_hidden s2 then (Inr (), s2)
            else
              (let s3 = s2\<lparr>offTimeout := None\<rparr>
               in (case srcObject (video s3) of
                     Some st \<Rightarrow> (Inr (), video_play s3)
                   | None \<Rightarrow> acquire p s3))))"

text \<open>The callback of the timer that \<open>pause\<close> sets.\<close>

definition release :: "session \<Rightarrow> session" where
  "release s =
     (let tracks = (case srcObject (video s) of Some st \<Rightarrow> getTracks st | None \<Rightarrow> []);
          s1 = emits (map (\<lambda>t. TrackStop (track_id t)) tracks) s
      in s1\<lparr>video := (video s1)\<lparr>srcObject := None\<rparr>, offTimeout := None\<rparr>)"

definition pause :: "session \<Rightarrow> session" where
  "pause s =
     (let s1 = s\<lparr>paused := True\<rparr>
      in if \<not> active s1 then s1
         else
           (let s2 = video_pause s1
            in if offTimeout s2 \<noteq> None then s2
               else s2\<lparr>offTimeout := Some (clock s2 + 300)\<rparr>))"

definition stop :: "session \<Rightarrow> session" where
  "stop s = (pause s)\<lparr>active := False\<rparr>"

text \<open>\<open>_postWorkerMessage\<close>: a message goes to a worker only.\<close>

definition postWorkerMessage :: "qr_engine \<Rightarrow> string \<Rightarrow> session \<Rightarrow> session" where
  "postWorkerMessage engine type s =
     (case engine of
        Worker n \<Rightarrow> emit (PostMessage engine type) s
      | BarcodeDetector n \<Rightarrow> s)"

definition destroy :: "session \<Rightarrow> session" where
  "destroy s =
     (let s1 = stop (s\<lparr>listening := False\<rparr>)
      in postWorkerMessage (qrEnginePromise s1) ''close'' s1)"

text \<open>
  Time passes by \<open>d\<close> milliseconds; the release timer runs once the delay of 300
  milliseconds is over.
\<close>

definition advance :: "nat \<Rightarrow> session \<Rightarrow> session" where
  "advance d s =
     (let s1 = s\<lparr>clock := clock s + d\<rparr>
      in (case offTimeout s1 of
            None \<Rightarrow> s1
          | Some due \<Rightarrow> if due \<le> clock s1 then release s1 else s1))"

subsection \<open>The scan loop\<close>

text \<open>
  \<open>_scanFrame\<close> asks for an animation frame unless the session is not active or the video
  is paused or has ended.
\<close>

definition scanFrame :: "session \<Rightarrow> session" where
  "scanFrame s =
     (if \<not> active s \<or> video_paused (video s) \<or> ended (video s) then s
      else emit RequestAnimationFrame (s\<lparr>frames_requested := Suc (frames_requested s)\<rparr>))"

text \<open>
  The callback given to \<open>requestAnimationFrame\<close>: it asks for the next frame while the video
  is not ready, and otherwise hands the frame to \<open>scanImage\<close> with the engine of the session.
\<close>

definition onAnimationFrame :: "session \<Rightarrow> session" where
  "onAnimationFrame s =
     (if readyState (video s) \<le> 1 then scanFrame s
      else emit (ScanImage (qrEnginePromise s))
             (s\<lparr>decodes_in_flight := Suc (decodes_in_flight s)\<rparr>))"

text \<open>
  The error handler in use. The method of the class drops the value
  \<open>NO_QR_CODE_FOUND\<close> and logs everything else; a callback of the caller is called with
  whatever the decoding was rejected with.
\<close>

definition callOnDecodeError :: "string \<Rightarrow> session \<Rightarrow> session" where
  "callOnDecodeError error s =
     (case onDecodeError s of
        DefaultHandler \<Rightarrow> if error = NO_QR_CODE_FOUND then s else emit (ConsoleLog error) s
      | CallerHandler k \<Rightarrow> emit (OnDecodeError k error) s)"

datatype outcome = Fulfilled string | Rejected string

text \<open>
  The two handlers attached to the promise of \<open>scanImage\<close>, and the link after them, which
  calls \<open>_scanFrame\<close>. The callbacks of the caller are taken to return normally and not to
  call back into the session.
\<close>

definition onSettled :: "platform \<Rightarrow> outcome \<Rightarrow> session \<Rightarrow> session" where
  "onSettled p r s =
     (let s1 =
            (case r of
               Fulfilled result \<Rightarrow> emit (OnDecode result) s
             | Rejected error \<Rightarrow>
                 if \<not> active s then s
                 else
                   (let s2 = (if contains ''service unavailable'' error then assignQrEngine p s
                              else s)
                    in callOnDecodeError error s2))
      in scanFrame s1)"

subsection \<open>Flash\<close>

definition firstVideoTrack :: "session \<Rightarrow> track option" where
  "firstVideoTrack s =
     (case srcObject (video s) of
        None \<Rightarrow> None
      | Some st \<Rightarrow> (case getVideoTracks st of [] \<Rightarrow> None | t # _ \<Rightarrow> Some t))"

definition hasFlash :: "platform \<Rightarrow> session \<Rightarrow> (string + bool) \<times> session" where
  "hasFlash p s =
     (if \<not> imageCapture_in_window p then (Inr False, s)
      else
        (case firstVideoTrack s of
           None \<Rightarrow> (Inl ''Camera not started or not available'', s)
         | Some t \<Rightarrow>
             (case getPhotoCapabilities p t of
                Inr fillLightMode \<Rightarrow> (Inr (''flash'' \<in> set fillLightMode), s)
              | Inl error \<Rightarrow> (Inr False, emit (ConsoleWarn error) s))))"

definition isFlashOn :: "session \<Rightarrow> bool" where
  "isFlashOn s = flashOn s"

definition setFlash :: "platform \<Rightarrow> bool \<Rightarrow> session \<Rightarrow> (string + unit) \<times> session" where
  "setFlash p on s =
     (case hasFlash p s of
        (Inl e, s1) \<Rightarrow> (Inl e, s1)
      | (Inr has, s1) \<Rightarrow>
          if \<not> has then (Inl ''No flash available'', s1)
          else
            (case firstVideoTrack s1 of
               None \<Rightarrow> (Inl ''TypeError'', s1)
             | Some t \<Rightarrow>
                 (let s2 = emit (ApplyTorch (track_id t) on) s1
                  in (case applyConstraints p t on of
                        Some e \<Rightarrow> (Inl e, s2)
                      | None \<Rightarrow> (Inr (), s2\<lparr>flashOn := on\<rparr>)))))"

definition toggleFlash :: "platform \<Rightarrow> session \<Rightarrow> (string + unit) \<times> session" where
  "toggleFlash p s = setFlash p (\<not> flashOn s) s"

definition turnFlashOff :: "platform \<Rightarrow> session \<Rightarrow> (string + unit) \<times> session" where
  "turnFlashOff p s = setFlash p False s"

definition turnFlashOn :: "platform \<Rightarrow> session \<Rightarrow> (string + unit) \<times> session" where
  "turnFlashOn p s = setFlash p True s"

subsection \<open>Events\<close>

text \<open>
  What can happen to a session: a call of a public method, an event of the video element
  or of the document that a listener of the session is attached to, an animation frame, the
  settlement of a decoding, and the passing of time. An event with nothing that waits for
  it (no frame requested, no decoding in flight, listeners removed) leaves the session as
  it is.
\<close>

datatype event =
    Start
  | Stop
  | Pause
  | Destroy
  | VisibilityChange bool
  | LoadedMetadata nat nat
  | Play
  | VideoReady nat
  | AnimationFrame
  | Settled outcome
  | Advance nat
  | ToggleFlash
  | TurnFlashOn
  | TurnFlashOff

definition onPlay :: "session \<Rightarrow> session" where
  "onPlay s = scanFrame (updateSourceRect s)"

definition onVisibilityChange :: "platform \<Rightarrow> session \<Rightarrow> session" where
  "onVisibilityChange p s =
     (if document_hidden s then pause s
      else if active s then snd (start p s)
      else s)"

fun step :: "platform \<Rightarrow> session \<Rightarrow> event \<Rightarrow> session" where
  "step p s Start = snd (start p s)"
| "step p s Stop = stop s"
| "step p s Pause = pause s"
| "step p s Destroy = destroy s"
| "step p s (VisibilityChange h) =
     (let s1 = s\<lparr>document_hidden := h\<rparr>
      in if listening s1 then onVisibilityChange p s1 else s1)"
| "step p s (LoadedMetadata w h) =
     (let s1 = s\<lparr>video := (video s)\<lparr>videoWidth := w, videoHeight := h\<rparr>\<rparr>
      in if listening s1 then updateSourceRect s1 else s1)"
| "step p s Play = (if listening s then onPlay s else s)"
| "step p s (VideoReady n) = s\<lparr>video := (video s)\<lparr>readyState := n\<rparr>\<rparr>"
| "step p s AnimationFrame =
     (if frames_requested s = 0 then s
      else onAnimationFrame (s\<lparr>frames_requested := frames_requested s - 1\<rparr>))"
| "step p s (Settled r) =
     (if decodes_in_flight s = 0 then s
      else onSettled p r (s\<lparr>decodes_in_flight := decodes_in_flight s - 1\<rparr>))"
| "step p s (Advance d) = advance d s"
| "step p s ToggleFlash = snd (toggleFlash p s)"
| "step p s TurnFlashOn = snd (turnFlashOn p s)"
| "step p s TurnFlashOff = snd (turnFlashOff p s)"

definition run :: "platform \<Rightarrow> session \<Rightarrow> event list \<Rightarrow> session" where
  "run p s evs = foldl (step p) s evs"

subsection \<open>Reading a trace\<close>

text \<open>The effects that a step from \<open>s\<close> to \<open>s'\<close> added to the trace.\<close>

definition since :: "session \<Rightarrow> session \<Rightarrow> effect list" where
  "since s s' = drop (length (trace s)) (trace s')"

fun requests_of :: "effect list \<Rightarrow> constraint list" where
  "requests_of [] = []"
| "requests_of (GetUserMedia c # es) = c # requests_of es"
| "requests_of (e # es) = requests_of es"

fun stopped_of :: "effect list \<Rightarrow> nat list" where
  "stopped_of [] = []"
| "stopped_of (TrackStop n # es) = n # stopped_of es"
| "stopped_of (e # es) = stopped_of es"

subsection \<open>Two devices\<close>

text \<open>
  A phone whose only camera faces the user, as in the fallback scenario of the
  specification, and the sessions that the two demo pages of the repository construct on
  it: \<open>new QrScanner(videoElem, callback)\<close> and
  \<open>new QrScanner(videoElem, callback, errorCallback, 300, "environment")\<close>.
\<close>

definition front_stream :: stream where
  "front_stream = \<lparr>getTracks = [\<lparr>track_id = 7, kind = VideoTrack, label = ''Front Camera''\<rparr>]\<rparr>"

definition front_only :: platform where
  "front_only =
     \<lparr>mediaDevices = True,
      getUserMedia =
        (\<lambda>c. case facingMode c of
               Some (Exact m) \<Rightarrow> if m = ''user'' then Some front_stream else None
             | _ \<Rightarrow> Some front_stream),
      location_protocol = ''https:'',
      barcodeDetector_in_window = False,
      getSupportedFormats = [],
      imageCapture_in_window = True,
      getPhotoCapabilities = (\<lambda>t. Inr [''flash'']),
      applyConstraints = (\<lambda>t on. None)\<rparr>"

definition no_camera :: platform where
  "no_camera = front_only\<lparr>getUserMedia := (\<lambda>c. None), barcodeDetector_in_window := True,
     getSupportedFormats := [''aztec'', ''qr_code'']\<rparr>"

definition fresh_video :: video where
  "fresh_video =
     \<lparr>srcObject = None, video_paused = True, ended = False, readyState = 0,
      videoWidth = 0, videoHeight = 0, style_transform = []\<rparr>"

definition demo :: session where
  "demo = constructor front_only fresh_video False Omitted None None"

definition demo_with_callback :: session where
  "demo_with_callback =
     constructor front_only fresh_video False (Callback 0) (Some 300) (Some ''environment'')"

definition scanning :: "event list" where
  "scanning = [Start, LoadedMetadata 640 480, Play, VideoReady 4, AnimationFrame]"

section \<open>Properties\<close>

text \<open>Facts for running the model on the two devices.\<close>

lemma front_stream_facing: "getFacingMode front_stream = Some ''user''"
  by (simp add: getFacingMode_def front_stream_def getVideoTracks_def test_i_def to_lower_def)

lemma front_stream_tracks:
  "getTracks front_stream = [\<lparr>track_id = 7, kind = VideoTrack, label = ''Front Camera''\<rparr>]"
  "getVideoTracks front_stream =
     [\<lparr>track_id = 7, kind = VideoTrack, label = ''Front Camera''\<rparr>]"
  by (simp_all add: front_stream_def getVideoTracks_def)

lemmas model_defs =
  run_def demo_def demo_with_callback_def scanning_def constructor_def start_def acquire_def
  front_only_def no_camera_def front_stream_facing front_stream_tracks fresh_video_def
  getCameraStream_def constraintsToTry_def assignQrEngine_def emit_def emits_def
  createQrEngine_def video_play_def video_pause_def setVideoMirror_def opposite_def
  pause_def stop_def destroy_def release_def advance_def postWorkerMessage_def
  scanFrame_def onAnimationFrame_def callOnDecodeError_def onSettled_def onPlay_def
  onVisibilityChange_def updateSourceRect_def
  firstVideoTrack_def hasFlash_def setFlash_def toggleFlash_def turnFlashOn_def
  turnFlashOff_def isFlashOn_def since_def
  DEFAULT_CANVAS_SIZE_def NO_QR_CODE_FOUND_def CAMERA_NOT_FOUND_def Let_def

subsection \<open>Region of interest\<close>

lemma js_round_two_thirds: "js_round (2 / 3 * of_nat n) = (4 * int n + 3) div 6"
proof -
  have "(2 / 3 * of_nat n + 1 / 2 :: rat) = of_int (4 * int n + 3) / of_int 6"
    by (simp add: field_simps)
  then show ?thesis
    unfolding js_round_def by (simp only: floor_divide_of_int_eq)
qed

text \<open>
  Two thirds of a natural number is never closer than a sixth to a number of the form
  \<open>k + 1 / 2\<close>, so a value within a sixth of the exact product rounds like the product.
\<close>

lemma js_round_two_thirds_stable:
  assumes "\<bar>q - 2 / 3 * of_nat n\<bar> < 1 / 6"
  shows "js_round q = js_round (2 / 3 * of_nat n)"
proof -
  let ?k = "(4 * int n + 3) div 6"
  have m: "(4 * int n + 3) mod 6 = 1 \<or> (4 * int n + 3) mod 6 = 3 \<or> (4 * int n + 3) mod 6 = 5"
    by presburger
  have e: "(4 * int n + 3) = 6 * ?k + (4 * int n + 3) mod 6" by simp
  have "of_int (4 * int n + 3) = (6 * of_int ?k + of_int ((4 * int n + 3) mod 6) :: rat)"
    by (metis e of_int_add of_int_mult of_int_numeral)
  then have x: "(2 / 3 * of_nat n + 1 / 2 :: rat) = of_int ?k + of_int ((4 * int n + 3) mod 6) / 6"
    by (simp add: field_simps)
  define r :: rat where "r = of_int ((4 * int n + 3) mod 6)"
  define e :: rat where "e = 2 / 3 * of_nat n"
  from m have r: "1 \<le> r" "r \<le> 5"
    unfolding r_def by auto
  from x have x': "e + 1 / 2 = of_int ?k + r / 6"
    unfolding r_def e_def .
  from assms have "\<bar>q - e\<bar> < 1 / 6"
    unfolding e_def .
  then have q: "q - e < 1 / 6" "e - q < 1 / 6"
    by linarith+
  have "of_int ?k \<le> q + 1 / 2" "q + 1 / 2 < of_int ?k + 1"
    using q x' r by linarith+
  then have "\<lfloor>q + 1 / 2\<rfloor> = ?k" by (simp add: floor_unique)
  then have "js_round q = ?k"
    unfolding js_round_def .
  then show ?thesis
    unfolding js_round_two_thirds .
qed

text \<open>
  In double precision the quotient \<open>2 / 3\<close> is \<open>2/3 \<times> (1 + d1)\<close> and its product with the
  dimension, an integer that a double holds exactly, is the exact product times
  \<open>1 + d2\<close>, where \<open>d1\<close> and \<open>d2\<close> are at most \<open>2\<^sup>-\<^sup>5\<^sup>3\<close> in absolute value (rounding to
  nearest). For every dimension below \<open>2\<^sup>3\<^sup>2\<close>, the range of \<open>videoWidth\<close> and
  \<open>videoHeight\<close>, \<open>Math.round\<close> of that double is the integer the exact product rounds to.
\<close>

lemma js_round_double_product:
  fixes d1 d2 :: rat
  assumes "\<bar>d1\<bar> \<le> 1 / 2 ^ 53" and "\<bar>d2\<bar> \<le> 1 / 2 ^ 53" and "n < 2 ^ 32"
  shows "js_round (2 / 3 * (1 + d1) * of_nat n * (1 + d2)) = js_round (2 / 3 * of_nat n)"
proof -
  define x where "x = d1 + d2 + d1 * d2"
  have "\<bar>d1 * d2\<bar> = \<bar>d1\<bar> * \<bar>d2\<bar>"
    by (simp add: abs_mult)
  also have "\<dots> \<le> (1 / 2 ^ 53) * 1"
    using assms(1,2) by (intro mult_mono) auto
  finally have "\<bar>d1 * d2\<bar> \<le> 1 / 2 ^ 53"
    by simp
  then have x: "\<bar>x\<bar> \<le> 3 / 2 ^ 53"
    unfolding x_def using assms(1,2) by linarith
  have n: "(of_nat n :: rat) \<le> 2 ^ 32"
    using assms(3) by (metis less_imp_le of_nat_le_iff of_nat_numeral of_nat_power)
  have "\<bar>2 / 3 * of_nat n * x\<bar> = 2 / 3 * of_nat n * \<bar>x\<bar>"
    by (simp add: abs_mult)
  also have "\<dots> \<le> 2 / 3 * 2 ^ 32 * (3 / 2 ^ 53)"
    using n x by (intro mult_mono) auto
  also have "\<dots> < 1 / 6"
    by simp
  finally have b: "\<bar>2 / 3 * of_nat n * x\<bar> < 1 / 6" .
  have e: "2 / 3 * (1 + d1) * of_nat n * (1 + d2) - 2 / 3 * of_nat n = 2 / 3 * of_nat n * x"
    unfolding x_def by (simp add: algebra_simps)
  show ?thesis
    by (rule js_round_two_thirds_stable) (simp only: e b)
qed

text \<open>
  Claim C5. Whatever the intrinsic width \<open>w\<close> and height \<open>h\<close> of the video are, the region of
  interest that \<open>_updateSourceRect\<close> computes is a square of side
  \<open>round(2/3 \<times> min(w, h))\<close>, which is the integer \<open>(4 \<times> min(w, h) + 3) div 6\<close>; it lies at
  \<open>x = (w - side) / 2\<close> and \<open>y = (h - side) / 2\<close>, and its side is at most \<open>min(w, h)\<close>.
\<close>

theorem updateSourceRect_centered_square:
  "(let w = videoWidth (video s); h = videoHeight (video s);
       r = sourceRect (updateSourceRect s);
       side = js_round (2 / 3 * of_nat (min w h))
   in rect_width r = of_int side \<and> rect_height r = of_int side
    \<and> rect_x r = (of_nat w - of_int side) / 2
    \<and> rect_y r = (of_nat h - of_int side) / 2
    \<and> side = (4 * int (min w h) + 3) div 6
    \<and> 0 \<le> side \<and> side \<le> int (min w h))"
proof -
  have "(4 * int n + 3) div 6 \<le> int n" "0 \<le> (4 * int n + 3) div 6" for n
    by presburger+
  then show ?thesis
    unfolding Let_def updateSourceRect_def js_round_two_thirds by simp
qed

theorem updateSourceRect_centered_square_witness:
  "sourceRect (run front_only demo [LoadedMetadata 640 480]) =
     \<lparr>rect_x = 160, rect_y = 80, rect_width = 320, rect_height = 320\<rparr>"
proof -
  let ?s = "demo\<lparr>video := (video demo)\<lparr>videoWidth := 640, videoHeight := 480\<rparr>\<rparr>"
  have "run front_only demo [LoadedMetadata 640 480] = updateSourceRect ?s"
    by (simp add: run_def demo_def constructor_def assignQrEngine_def emit_def Let_def)
  moreover have "sourceRect (updateSourceRect ?s) =
     \<lparr>rect_x = 160, rect_y = 80, rect_width = 320, rect_height = 320\<rparr>"
    using updateSourceRect_centered_square [of ?s]
    by (simp add: Let_def rect.equality)
  ultimately show ?thesis by simp
qed

subsection \<open>Negotiating the constraints\<close>

lemma getMatchingCameraStream_no_mediaDevices:
  "\<not> mediaDevices p \<Longrightarrow> getMatchingCameraStream p cs = ([], Inl CAMERA_NOT_FOUND)"
  by (cases cs) simp_all

lemma getMatchingCameraStream_requests:
  "mediaDevices p \<Longrightarrow>
   fst (getMatchingCameraStream p cs) =
     takeWhile (\<lambda>c. getUserMedia p c = None) cs
     @ take 1 (dropWhile (\<lambda>c. getUserMedia p c = None) cs)"
  by (induction cs) (auto split: option.splits prod.splits)

lemma getMatchingCameraStream_rejected:
  "mediaDevices p \<Longrightarrow>
   (snd (getMatchingCameraStream p cs) = Inl e) =
     (e = CAMERA_NOT_FOUND \<and> list_all (\<lambda>c. getUserMedia p c = None) cs)"
  by (induction cs) (auto split: option.splits prod.splits)

lemma getMatchingCameraStream_fulfilled:
  "mediaDevices p \<Longrightarrow>
   (snd (getMatchingCameraStream p cs) = Inr st) =
     (case dropWhile (\<lambda>c. getUserMedia p c = None) cs of
        [] \<Rightarrow> False
      | c # _ \<Rightarrow> getUserMedia p c = Some st)"
  by (induction cs) (auto split: option.splits prod.splits)

lemma constraintsToTry_eq:
  "constraintsToTry fm exact =
     (let f = (case fm of
                 None \<Rightarrow> None
               | Some m \<Rightarrow> if m = [] then None
                           else Some (if exact then Exact m else Plain m))
      in [\<lparr>width_min = Some 1024, facingMode = f\<rparr>,
          \<lparr>width_min = Some 768, facingMode = f\<rparr>,
          \<lparr>width_min = None, facingMode = f\<rparr>])"
  by (simp add: constraintsToTry_def Let_def split: option.splits)

text \<open>
  Claim C6. A camera acquisition \<open>_getCameraStream(facingMode, exact)\<close> has three candidates,
  in this order: width at least 1024, width at least 768, no width; each carries the
  requested facing mode, as an exact constraint when \<open>exact\<close> is set (the first candidate
  and the two after it alike), and none when no facing mode is given. The requests made
  are the candidates up to and including the first one the platform fulfils, so each
  follows the rejection of the one before. The acquisition is rejected, always with the
  camera-not-found error, exactly when there is no media capability or all three
  candidates are rejected; otherwise it is fulfilled with the stream of its last request.
\<close>

theorem getCameraStream_negotiation:
  "(let f = (case fm of
               None \<Rightarrow> None
             | Some m \<Rightarrow> if m = [] then None
                         else Some (if exact then Exact m else Plain m));
        candidates =
          [\<lparr>width_min = Some 1024, facingMode = f\<rparr>,
           \<lparr>width_min = Some 768, facingMode = f\<rparr>,
           \<lparr>width_min = None, facingMode = f\<rparr>];
        fails = (\<lambda>c. getUserMedia p c = None);
        (requests, r) = getCameraStream p fm exact
    in constraintsToTry fm exact = candidates
     \<and> requests =
         (if mediaDevices p
          then takeWhile fails candidates @ take 1 (dropWhile fails candidates)
          else [])
     \<and> (case r of
          Inl e \<Rightarrow> e = CAMERA_NOT_FOUND \<and> (\<not> mediaDevices p \<or> list_all fails candidates)
        | Inr st \<Rightarrow>
            mediaDevices p \<and> \<not> list_all fails candidates
            \<and> getUserMedia p (last requests) = Some st))"
proof -
  define f where "f = (case fm of
               None \<Rightarrow> None
             | Some m \<Rightarrow> if m = [] then None
                         else Some (if exact then Exact m else Plain m))"
  define candidates where "candidates =
          [\<lparr>width_min = Some 1024, facingMode = f\<rparr>,
           \<lparr>width_min = Some 768, facingMode = f\<rparr>,
           \<lparr>width_min = None, facingMode = f\<rparr>]"
  define fails where "fails = (\<lambda>c. getUserMedia p c = None)"
  obtain requests r where g: "getMatchingCameraStream p candidates = (requests, r)"
    by (cases "getMatchingCameraStream p candidates")
  have c: "constraintsToTry fm exact = candidates"
    unfolding constraintsToTry_eq f_def candidates_def Let_def ..
  have req: "requests =
         (if mediaDevices p
          then takeWhile fails candidates @ take 1 (dropWhile fails candidates)
          else [])"
    using getMatchingCameraStream_requests [of p candidates]
      getMatchingCameraStream_no_mediaDevices [of p candidates] g
    by (auto simp: fails_def)
  have res: "(case r of
          Inl e \<Rightarrow> e = CAMERA_NOT_FOUND \<and> (\<not> mediaDevices p \<or> list_all fails candidates)
        | Inr st \<Rightarrow>
            mediaDevices p \<and> \<not> list_all fails candidates
            \<and> getUserMedia p (last requests) = Some st)"
  proof (cases "mediaDevices p")
    case False
    then show ?thesis
      using getMatchingCameraStream_no_mediaDevices [of p candidates] g by simp
  next
    case True
    show ?thesis
    proof (cases r)
      case (Inl e)
      then show ?thesis
        using getMatchingCameraStream_rejected [OF True, of candidates e] g
        by (simp add: fails_def)
    next
      case (Inr st)
      then have d: "(case dropWhile fails candidates of [] \<Rightarrow> False
                     | c # _ \<Rightarrow> getUserMedia p c = Some st)"
        using getMatchingCameraStream_fulfilled [OF True, of candidates st] g
        by (simp add: fails_def)
      then obtain c rest where dw: "dropWhile fails candidates = c # rest"
        and c: "getUserMedia p c = Some st"
        by (cases "dropWhile fails candidates") auto
      from dw have "\<not> list_all fails candidates"
        by (metis dropWhile_eq_Nil_conv list.distinct(1) list_all_iff)
      moreover have "last requests = c"
        using req True dw by simp
      ultimately show ?thesis
        using Inr True c by simp
    qed
  qed
  show ?thesis
    unfolding getCameraStream_def Let_def f_def [symmetric] candidates_def [symmetric]
      fails_def [symmetric] c g prod.case
    by (intro conjI refl req res)
qed

theorem getCameraStream_negotiation_witness:
  "getCameraStream front_only (Some ''environment'') True =
     ([\<lparr>width_min = Some 1024, facingMode = Some (Exact ''environment'')\<rparr>,
       \<lparr>width_min = Some 768, facingMode = Some (Exact ''environment'')\<rparr>,
       \<lparr>width_min = None, facingMode = Some (Exact ''environment'')\<rparr>],
      Inl CAMERA_NOT_FOUND)
   \<and> getCameraStream front_only (Some ''user'') False =
     ([\<lparr>width_min = Some 1024, facingMode = Some (Plain ''user'')\<rparr>], Inr front_stream)"
  using getCameraStream_negotiation
      [where fm = "Some ''environment''" and exact = True and p = front_only]
    getCameraStream_negotiation
      [where fm = "Some ''user''" and exact = False and p = front_only]
  by (simp add: model_defs)

subsection \<open>Starting twice\<close>

text \<open>
  Claim C7. On a session that is active and not paused, \<open>start()\<close> returns a resolved promise
  and leaves the session as it is: nothing is added to the trace, so no stream is
  requested, and two calls in a row from that state request none either.
\<close>

theorem start_noop_when_scanning:
  assumes "active s" and "\<not> paused s"
  shows "start p s = (Inr (), s) \<and> run p s [Start, Start] = s
       \<and> requests_of (since s (run p s [Start, Start])) = []"
  using assms by (simp add: start_def run_def since_def)

theorem start_noop_when_scanning_witness:
  "active (run front_only demo [Start]) \<and> \<not> paused (run front_only demo [Start])
   \<and> run front_only demo [Start, Start, Start] = run front_only demo [Start]"
proof -
  have a: "active (run front_only demo [Start])" and b: "\<not> paused (run front_only demo [Start])"
    by (simp_all add: model_defs)
  have "run front_only (run front_only demo [Start]) [Start, Start] = run front_only demo [Start]"
    using start_noop_when_scanning [OF a b, of front_only] by simp
  then show ?thesis
    using a b by (simp add: run_def)
qed

subsection \<open>The constructor\<close>

text \<open>
  Claim C9. When the third argument of the constructor is a number, that number is the
  canvas size (whatever the fourth argument is) and the error handler of the session is
  the default one, which drops the value \<open>NO_QR_CODE_FOUND\<close> and logs every other error;
  when it is a callback, the callback is the error handler and the canvas size is the
  fourth argument or its default.
\<close>

theorem constructor_third_argument:
  "(let s = constructor p v hidden third canvasSize_arg facing_arg;
        size4 = (case canvasSize_arg of None \<Rightarrow> DEFAULT_CANVAS_SIZE | Some n \<Rightarrow> n)
    in (case third of
          Number n \<Rightarrow>
            canvas_width s = n \<and> canvas_height s = n
            \<and> sourceRect s = \<lparr>rect_x = 0, rect_y = 0, rect_width = n, rect_height = n\<rparr>
            \<and> onDecodeError s = DefaultHandler
        | Callback k \<Rightarrow>
            canvas_width s = size4 \<and> canvas_height s = size4
            \<and> onDecodeError s = CallerHandler k
        | Omitted \<Rightarrow>
            canvas_width s = size4 \<and> canvas_height s = size4
            \<and> onDecodeError s = DefaultHandler)
     \<and> (onDecodeError s = DefaultHandler \<longrightarrow>
           callOnDecodeError NO_QR_CODE_FOUND s = s
           \<and> callOnDecodeError e s =
               (if e = NO_QR_CODE_FOUND then s else emit (ConsoleLog e) s)))"
  by (cases third)
    (simp_all add: constructor_def assignQrEngine_def emit_def callOnDecodeError_def Let_def)

theorem constructor_third_argument_witness:
  "onDecodeError (constructor front_only fresh_video False (Number 300) (Some 250) None)
     = DefaultHandler
   \<and> canvas_width (constructor front_only fresh_video False (Number 300) (Some 250) None) = 300
   \<and> callOnDecodeError NO_QR_CODE_FOUND
       (constructor front_only fresh_video False (Number 300) (Some 250) None)
     = constructor front_only fresh_video False (Number 300) (Some 250) None
   \<and> onDecodeError demo_with_callback = CallerHandler 0
   \<and> canvas_width demo_with_callback = 300"
  using constructor_third_argument [where p = front_only and v = fresh_video and hidden = False
        and third = "Number 300" and canvasSize_arg = "Some 250" and facing_arg = None]
    constructor_third_argument [where p = front_only and v = fresh_video and hidden = False
        and third = "Callback 0" and canvasSize_arg = "Some 300"
        and facing_arg = "Some ''environment''"]
  by (simp add: Let_def demo_with_callback_def)

subsection \<open>A decoding that settles\<close>

lemma active_stop: "\<not> active (stop s)" "decodes_in_flight (stop s) = decodes_in_flight s"
  by (simp_all add: stop_def pause_def video_pause_def emit_def Let_def)

lemma active_destroy: "\<not> active (destroy s)" "decodes_in_flight (destroy s) = decodes_in_flight s"
  by (simp_all add: destroy_def postWorkerMessage_def stop_def pause_def video_pause_def emit_def
      Let_def split: qr_engine.splits)

lemma onSettled_inactive:
  assumes "\<not> active s"
  shows "onSettled p (Rejected e) s = s"
    and "frames_requested (onSettled p r s) = frames_requested s"
    and "RequestAnimationFrame \<notin> set (since s (onSettled p r s))"
  using assms
  by (simp_all add: onSettled_def scanFrame_def emit_def since_def Let_def split: outcome.splits)

text \<open>
  Claim C1, as the code has it. \<open>stop()\<close> and \<open>destroy()\<close> leave a decoding in flight as it
  is. When it settles afterwards with a rejection, the rejection handler finds the session
  not active and returns: the error callback is not called, nothing is logged, the engine
  is kept. Whatever it settles with, \<open>_scanFrame\<close> finds the session not active and requests
  no frame. (A decoding that is fulfilled is not covered: see the theorem after the next.)
\<close>

theorem settled_after_stop:
  assumes "0 < decodes_in_flight s" and "s' = stop s \<or> s' = destroy s"
  shows "decodes_in_flight s' = decodes_in_flight s
       \<and> step p s' (Settled (Rejected e)) = s'\<lparr>decodes_in_flight := decodes_in_flight s - 1\<rparr>
       \<and> frames_requested (step p s' (Settled r)) = frames_requested s'
       \<and> RequestAnimationFrame \<notin> set (since s' (step p s' (Settled r)))"
proof -
  have a: "\<not> active s'" and d: "decodes_in_flight s' = decodes_in_flight s"
    using assms(2) active_stop active_destroy by auto
  define t where "t = s'\<lparr>decodes_in_flight := decodes_in_flight s - 1\<rparr>"
  have t: "\<not> active t"
    using a by (simp add: t_def)
  have st: "step p s' (Settled x) = onSettled p x t" for x
    using assms(1) d by (simp add: t_def)
  have "step p s' (Settled (Rejected e)) = t"
    unfolding st by (rule onSettled_inactive(1) [OF t])
  moreover have "frames_requested (step p s' (Settled r)) = frames_requested s'"
    unfolding st onSettled_inactive(2) [OF t] by (simp add: t_def)
  moreover have "since s' x = since t x" for x
    by (simp add: since_def t_def)
  then have "RequestAnimationFrame \<notin> set (since s' (step p s' (Settled r)))"
    unfolding st using onSettled_inactive(3) [OF t] by simp
  ultimately show ?thesis
    using d unfolding t_def by blast
qed

theorem settled_after_stop_witness:
  "0 < decodes_in_flight (run front_only demo scanning)
   \<and> step front_only (stop (run front_only demo scanning))
       (Settled (Rejected ''Scanner error: timeout''))
     = (stop (run front_only demo scanning))\<lparr>decodes_in_flight := 0\<rparr>"
proof -
  have a: "0 < decodes_in_flight (run front_only demo scanning)"
    by (simp add: model_defs)
  have b: "decodes_in_flight (run front_only demo scanning) - 1 = 0"
    by (simp add: model_defs)
  have "step front_only (stop (run front_only demo scanning))
            (Settled (Rejected ''Scanner error: timeout''))
        = (stop (run front_only demo scanning))
            \<lparr>decodes_in_flight := decodes_in_flight (run front_only demo scanning) - 1\<rparr>"
    using settled_after_stop [OF a, of "stop (run front_only demo scanning)" front_only] by blast
  then show ?thesis
    unfolding b using a by blast
qed

text \<open>
  The success callback is the fulfilment handler itself, \<open>.then(this._onDecode, ...)\<close>, and
  runs without a look at \<open>_active\<close>: a session that is stopped while a decoding is in
  flight still hands the result to the caller.
\<close>

theorem onDecode_after_stop:
  "\<not> active (run front_only demo (scanning @ [Stop]))
   \<and> since (run front_only demo (scanning @ [Stop]))
        (run front_only demo (scanning @ [Stop, Settled (Fulfilled ''hello'')]))
      = [OnDecode ''hello'']"
  by (simp add: model_defs)

text \<open>
  Claim C4, as the code has it. When a decoding settles with \<open>NO_QR_CODE_FOUND\<close>, the success
  callback is not called. A session with the default error handler reports nothing; a
  session with an error callback of the caller calls it with that value, if the session is
  active. The next frame is requested exactly when the session is active and the video is
  neither paused nor ended.
\<close>

theorem not_found_cycle:
  "since s (onSettled p (Rejected NO_QR_CODE_FOUND) s) =
     (if active s
      then (case onDecodeError s of
              DefaultHandler \<Rightarrow> []
            | CallerHandler k \<Rightarrow> [OnDecodeError k NO_QR_CODE_FOUND])
      else [])
     @ (if active s \<and> \<not> video_paused (video s) \<and> \<not> ended (video s)
        then [RequestAnimationFrame] else [])"
  by (simp add: onSettled_def callOnDecodeError_def scanFrame_def emit_def since_def
      NO_QR_CODE_FOUND_def Let_def split: error_handler.splits)

theorem not_found_cycle_witness:
  "since (run front_only demo scanning)
     (run front_only demo (scanning @ [Settled (Rejected NO_QR_CODE_FOUND)]))
   = [RequestAnimationFrame]"
proof -
  let ?s = "(run front_only demo scanning)\<lparr>decodes_in_flight := 0\<rparr>"
  have "run front_only demo (scanning @ [Settled (Rejected NO_QR_CODE_FOUND)])
        = onSettled front_only (Rejected NO_QR_CODE_FOUND) ?s"
    by (simp add: model_defs)
  moreover have "since ?s (onSettled front_only (Rejected NO_QR_CODE_FOUND) ?s)
        = [RequestAnimationFrame]"
    using not_found_cycle [of ?s front_only] by (simp add: model_defs)
  moreover have "since (run front_only demo scanning) x = since ?s x" for x
    by (simp add: since_def)
  ultimately show ?thesis by simp
qed

text \<open>
  The session of the second demo page has an error callback, which is called with
  \<open>NO_QR_CODE_FOUND\<close>; and on a session paused while the decoding was in flight no frame is
  requested after it.
\<close>

theorem not_found_reaches_callback:
  "since (run front_only demo_with_callback scanning)
     (run front_only demo_with_callback (scanning @ [Settled (Rejected NO_QR_CODE_FOUND)]))
   = [OnDecodeError 0 ''No QR code found'', RequestAnimationFrame]
   \<and> since (run front_only demo (scanning @ [Pause]))
     (run front_only demo (scanning @ [Pause, Settled (Rejected NO_QR_CODE_FOUND)]))
   = []"
  by (simp add: model_defs)

subsection \<open>Flash\<close>

text \<open>
  Claim C10. \<open>toggleFlash\<close>, \<open>turnFlashOn\<close> and \<open>turnFlashOff\<close> are \<open>_setFlash\<close> at the negated
  cached state, at \<open>true\<close> and at \<open>false\<close>. When \<open>_setFlash(on)\<close> is fulfilled, the torch
  constraint has been applied to the first video track successfully and the state that
  \<open>isFlashOn()\<close> reads is \<open>on\<close>; when it is rejected (camera not available, no flash, or
  the constraint not applied), that state is what it was, and only the trace has grown.
\<close>

theorem setFlash_cached_state:
  "(case setFlash p on s of
      (Inr u, s') \<Rightarrow>
        isFlashOn s' = on
        \<and> (case firstVideoTrack s of
             None \<Rightarrow> False
           | Some t \<Rightarrow>
               applyConstraints p t on = None
               \<and> since s s' = [ApplyTorch (track_id t) on])
    | (Inl e, s') \<Rightarrow> isFlashOn s' = isFlashOn s \<and> s' = s\<lparr>trace := trace s'\<rparr>)
   \<and> toggleFlash p s = setFlash p (\<not> isFlashOn s) s
   \<and> turnFlashOn p s = setFlash p True s
   \<and> turnFlashOff p s = setFlash p False s"
  by (auto simp: setFlash_def hasFlash_def toggleFlash_def turnFlashOn_def turnFlashOff_def
      isFlashOn_def since_def emit_def firstVideoTrack_def Let_def
      split: option.splits sum.splits list.splits prod.splits if_splits)

theorem setFlash_cached_state_witness:
  "turnFlashOn front_only demo = (Inl ''Camera not started or not available'', demo)
   \<and> \<not> isFlashOn demo
   \<and> fst (turnFlashOn front_only (run front_only demo [Start])) = Inr ()
   \<and> isFlashOn (run front_only demo [Start, ToggleFlash])
   \<and> \<not> isFlashOn (run front_only demo [Start, ToggleFlash, ToggleFlash])"
  using setFlash_cached_state [where p = front_only and on = True and s = demo]
    setFlash_cached_state [where p = front_only and on = True and s = "run front_only demo [Start]"]
  by (simp add: model_defs)

subsection \<open>Falling back to another camera\<close>

lemma requests_of_append: "requests_of (xs @ ys) = requests_of xs @ requests_of ys"
  by (induction xs rule: requests_of.induct) simp_all

lemma requests_of_map: "requests_of (map GetUserMedia cs) = cs"
  by (induction cs) simp_all

lemma stopped_of_append: "stopped_of (xs @ ys) = stopped_of xs @ stopped_of ys"
  by (induction xs rule: stopped_of.induct) simp_all

lemma stopped_of_map: "stopped_of (map (\<lambda>t. TrackStop (f t)) ts) = map f ts"
  by (induction ts) simp_all

lemma stopped_of_requests: "stopped_of (map GetUserMedia cs) = []"
  by (induction cs) simp_all

lemma acquire_requests:
  "requests_of (since s (snd (acquire p s))) =
     fst (getCameraStream p (preferredFacingMode s) True)
     @ (case snd (getCameraStream p (preferredFacingMode s) True) of
          Inl e \<Rightarrow> fst (getCameraStream p None False)
        | Inr st \<Rightarrow> [])"
  by (simp add: acquire_def since_def emits_def emit_def video_play_def setVideoMirror_def
      requests_of_append requests_of_map Let_def
      split: prod.splits sum.splits)

lemma acquire_stopped: "stopped_of (since s (snd (acquire p s))) = []"
  by (simp add: acquire_def since_def emits_def emit_def video_play_def setVideoMirror_def
      stopped_of_append stopped_of_requests Let_def
      split: prod.splits sum.splits)

lemma acquire_fallback:
  assumes "snd (getCameraStream p (preferredFacingMode s) True) = Inl e"
  shows "(case snd (getCameraStream p None False) of
            Inr st \<Rightarrow>
              fst (acquire p s) = Inr ()
              \<and> srcObject (video (snd (acquire p s))) = Some st
              \<and> active (snd (acquire p s)) = active s
              \<and> style_transform (video (snd (acquire p s))) =
                  (if (case getFacingMode st of Some m \<Rightarrow> Some m
                       | None \<Rightarrow> opposite (preferredFacingMode s)) = Some ''user''
                   then ''scaleX(-1)'' else ''scaleX(1)'')
          | Inl e2 \<Rightarrow>
              fst (acquire p s) = Inl e2 \<and> \<not> active (snd (acquire p s))
              \<and> srcObject (video (snd (acquire p s))) = srcObject (video s))"
proof -
  obtain rq where g: "getCameraStream p (preferredFacingMode s) True = (rq, Inl e)"
    using assms by (cases "getCameraStream p (preferredFacingMode s) True") simp
  show ?thesis
    by (simp add: acquire_def g emits_def emit_def video_play_def setVideoMirror_def Let_def
        split: prod.splits sum.splits)
qed


lemma getMatchingCameraStream_subset:
  "set (fst (getMatchingCameraStream p cs)) \<subseteq> set cs"
  by (induction cs) (auto split: option.splits prod.splits)

lemma start_acquires:
  assumes "\<not> (active s \<and> \<not> paused s)" and "\<not> document_hidden s"
    and "srcObject (video s) = None"
  shows "start p s =
     acquire p
       ((if location_protocol p \<noteq> ''https:'' then emit (ConsoleWarn HTTPS_WARNING) s else s)
          \<lparr>active := True, paused := False, offTimeout := None\<rparr>)"
  using assms by (auto simp: start_def emit_def Let_def)

lemma since_after_warning:
  "requests_of
     (since s
        (snd (acquire p
           ((if b then emit (ConsoleWarn w) s else s)
              \<lparr>active := True, paused := False, offTimeout := None\<rparr>)))) =
   requests_of
     (since ((if b then emit (ConsoleWarn w) s else s)
               \<lparr>active := True, paused := False, offTimeout := None\<rparr>)
        (snd (acquire p
           ((if b then emit (ConsoleWarn w) s else s)
              \<lparr>active := True, paused := False, offTimeout := None\<rparr>))))"
  by (simp add: acquire_def since_def emits_def emit_def video_play_def setVideoMirror_def
      requests_of_append requests_of_map Let_def
      split: prod.splits sum.splits)

text \<open>
  Claim C2, as the code has it. When \<open>start()\<close> gets as far as acquiring a stream and the
  acquisition with the preferred facing mode as an exact constraint is rejected, there is
  exactly one more acquisition, \<open>_getCameraStream()\<close> without arguments: its candidates
  carry no facing mode at all. The opposite facing mode is only the guess that stands in
  when the label of the stream does not tell the facing mode. When the second acquisition
  is fulfilled, the stream is attached and the video is mirrored, \<open>scaleX(-1)\<close>, if and
  only if the facing mode so resolved is \<open>user\<close>; when it is rejected, \<open>start()\<close> is
  rejected and the session is not active.
\<close>

theorem start_fallback:
  assumes "\<not> (active s \<and> \<not> paused s)" and "\<not> document_hidden s"
    and "srcObject (video s) = None"
    and "snd (getCameraStream p (preferredFacingMode s) True) = Inl e"
  shows "requests_of (since s (snd (start p s))) =
           fst (getCameraStream p (preferredFacingMode s) True)
           @ fst (getCameraStream p None False)
       \<and> constraintsToTry None False =
           [\<lparr>width_min = Some 1024, facingMode = None\<rparr>,
            \<lparr>width_min = Some 768, facingMode = None\<rparr>,
            \<lparr>width_min = None, facingMode = None\<rparr>]
       \<and> list_all (\<lambda>c. facingMode c = None) (fst (getCameraStream p None False))
       \<and> (case snd (getCameraStream p None False) of
            Inr st \<Rightarrow>
              fst (start p s) = Inr ()
              \<and> srcObject (video (snd (start p s))) = Some st
              \<and> active (snd (start p s))
              \<and> style_transform (video (snd (start p s))) =
                  (if (case getFacingMode st of Some m \<Rightarrow> Some m
                       | None \<Rightarrow> opposite (preferredFacingMode s)) = Some ''user''
                   then ''scaleX(-1)'' else ''scaleX(1)'')
          | Inl e2 \<Rightarrow>
              fst (start p s) = Inl e2 \<and> \<not> active (snd (start p s))
              \<and> srcObject (video (snd (start p s))) = None)"
proof -
  define s3 where "s3 =
    (if location_protocol p \<noteq> ''https:'' then emit (ConsoleWarn HTTPS_WARNING) s else s)
      \<lparr>active := True, paused := False, offTimeout := None\<rparr>"
  have st: "start p s = acquire p s3"
    unfolding s3_def by (rule start_acquires [OF assms(1-3)])
  have pf: "preferredFacingMode s3 = preferredFacingMode s"
    and a3: "active s3" and v3: "srcObject (video s3) = None"
    using assms(3) by (simp_all add: s3_def emit_def)
  have rq: "requests_of (since s (snd (acquire p s3))) = requests_of (since s3 (snd (acquire p s3)))"
    unfolding s3_def by (rule since_after_warning)
  have 1: "requests_of (since s (snd (start p s))) =
           fst (getCameraStream p (preferredFacingMode s) True)
           @ fst (getCameraStream p None False)"
    unfolding st rq acquire_requests pf using assms(4) by simp
  have 2: "constraintsToTry None False =
           [\<lparr>width_min = Some 1024, facingMode = None\<rparr>,
            \<lparr>width_min = Some 768, facingMode = None\<rparr>,
            \<lparr>width_min = None, facingMode = None\<rparr>]"
    by (simp add: constraintsToTry_def)
  have 3: "list_all (\<lambda>c. facingMode c = None) (fst (getCameraStream p None False))"
    using getMatchingCameraStream_subset [of p "constraintsToTry None False"]
    unfolding getCameraStream_def 2 by (auto simp: list_all_iff)
  have 4: "(case snd (getCameraStream p None False) of
            Inr st \<Rightarrow>
              fst (start p s) = Inr ()
              \<and> srcObject (video (snd (start p s))) = Some st
              \<and> active (snd (start p s))
              \<and> style_transform (video (snd (start p s))) =
                  (if (case getFacingMode st of Some m \<Rightarrow> Some m
                       | None \<Rightarrow> opposite (preferredFacingMode s)) = Some ''user''
                   then ''scaleX(-1)'' else ''scaleX(1)'')
          | Inl e2 \<Rightarrow>
              fst (start p s) = Inl e2 \<and> \<not> active (snd (start p s))
              \<and> srcObject (video (snd (start p s))) = None)"
    using acquire_fallback [of p s3 e] assms(4) a3 v3
    unfolding st pf by (simp split: sum.splits)
  show ?thesis
    by (intro conjI 1 2 3 4)
qed

theorem start_fallback_witness:
  "snd (getCameraStream front_only (preferredFacingMode demo) True) = Inl CAMERA_NOT_FOUND
   \<and> fst (start front_only demo) = Inr ()
   \<and> srcObject (video (snd (start front_only demo))) = Some front_stream
   \<and> style_transform (video (snd (start front_only demo))) = ''scaleX(-1)''"
proof -
  have h: "\<not> (active demo \<and> \<not> paused demo)" "\<not> document_hidden demo"
    "srcObject (video demo) = None"
    "snd (getCameraStream front_only (preferredFacingMode demo) True) = Inl CAMERA_NOT_FOUND"
    by (simp_all add: model_defs)
  have g: "getCameraStream front_only None False =
      ([\<lparr>width_min = Some 1024, facingMode = None\<rparr>], Inr front_stream)"
    by (simp add: model_defs)
  have f: "getFacingMode front_stream = Some ''user''"
    by (simp add: model_defs)
  show ?thesis
    using start_fallback [OF h] h(4) by (simp add: g f)
qed

text \<open>
  On the phone with a front camera only, the fourth request, the first of the fallback, has
  no facing mode: it is not a request for the opposite facing mode \<open>user\<close>.
\<close>

theorem fallback_without_facing_mode:
  "map facingMode (requests_of (trace (snd (start front_only demo)))) =
     [Some (Exact ''environment''), Some (Exact ''environment''), Some (Exact ''environment''),
      None]"
  by (simp add: model_defs)

subsection \<open>The grace period\<close>

lemma start_cancels_timer:
  assumes "\<not> document_hidden s" and "\<not> (active s \<and> \<not> paused s)"
  shows "offTimeout (snd (start p s)) = None"
  using assms
  by (auto simp: start_def acquire_def emit_def emits_def video_play_def setVideoMirror_def
      Let_def split: option.splits prod.splits sum.splits)

lemma start_stops_nothing: "stopped_of (since s (snd (start p s))) = []"
  by (auto simp: start_def acquire_def since_def emit_def emits_def video_play_def
      setVideoMirror_def stopped_of_append stopped_of_requests Let_def
      split: option.splits prod.splits sum.splits)

lemma start_keeps_stream:
  assumes "srcObject (video s) = Some st"
  shows "srcObject (video (snd (start p s))) = Some st"
  using assms by (auto simp: start_def emit_def video_play_def Let_def)

lemma trace_start: "\<exists>es. trace (snd (start p s)) = trace s @ es"
  by (auto simp: start_def acquire_def emit_def emits_def video_play_def
      setVideoMirror_def Let_def
      split: option.splits prod.splits sum.splits)

lemma start_returns_early:
  assumes "document_hidden s \<or> (active s \<and> \<not> paused s)"
  shows "offTimeout (snd (start p s)) = offTimeout s"
    and "srcObject (video (snd (start p s))) = srcObject (video s)"
  using assms by (auto simp: start_def emit_def Let_def)

lemma clock_start: "clock (snd (start p s)) = clock s"
  by (auto simp: start_def acquire_def emit_def emits_def video_play_def setVideoMirror_def
      Let_def split: option.splits prod.splits sum.splits)

lemma pause_active:
  assumes "active s"
  shows "offTimeout (pause s) =
           Some (case offTimeout s of None \<Rightarrow> clock s + 300 | Some due \<Rightarrow> due)"
    and "clock (pause s) = clock s"
    and "srcObject (video (pause s)) = srcObject (video s)"
    and "trace (pause s) = trace s @ [VideoPause]"
    and "paused (pause s)" and "document_hidden (pause s) = document_hidden s"
  using assms by (auto simp: pause_def video_pause_def emit_def Let_def)

lemma pause_inactive:
  assumes "\<not> active s"
  shows "offTimeout (pause s) = offTimeout s" and "trace (pause s) = trace s"
  using assms by (simp_all add: pause_def Let_def)

lemma advance_early:
  assumes "offTimeout s = Some due" and "clock s + d < due"
  shows "advance d s = s\<lparr>clock := clock s + d\<rparr>"
  using assms by (simp add: advance_def Let_def)

lemma advance_no_timer:
  assumes "offTimeout s = None"
  shows "advance d s = s\<lparr>clock := clock s + d\<rparr>"
  using assms by (simp add: advance_def Let_def)

lemma advance_due:
  assumes "offTimeout s = Some due" and "due \<le> clock s + d"
  shows "srcObject (video (advance d s)) = None"
    and "offTimeout (advance d s) = None"
    and "trace (advance d s) =
           trace s @ map (\<lambda>t. TrackStop (track_id t))
             (case srcObject (video s) of Some st \<Rightarrow> getTracks st | None \<Rightarrow> [])"
  using assms by (simp_all add: advance_def release_def emits_def Let_def)

text \<open>
  \<open>pause()\<close>, \<open>d1\<close> milliseconds, \<open>start()\<close>, \<open>d2\<close> milliseconds, on an active session, where
  \<open>due\<close> is the time at which the timer that is pending after \<open>pause()\<close> runs.
\<close>

lemma pause_start_visible:
  assumes "active s" and "\<not> document_hidden s"
    and "clock s + d1 < (case offTimeout s of None \<Rightarrow> clock s + 300 | Some due \<Rightarrow> due)"
  shows "offTimeout (snd (start p (advance d1 (pause s)))) = None"
    and "stopped_of (since s (advance d2 (snd (start p (advance d1 (pause s)))))) = []"
    and "srcObject (video s) \<noteq> None \<Longrightarrow>
           srcObject (video (advance d2 (snd (start p (advance d1 (pause s))))))
           = srcObject (video s)"
proof -
  note ps = pause_active [OF assms(1)]
  define a where "a = advance d1 (pause s)"
  have a: "a = (pause s)\<lparr>clock := clock s + d1\<rparr>"
    unfolding a_def using advance_early [OF ps(1), of d1] assms(3) ps(2) by simp
  define b where "b = snd (start p a)"
  have "\<not> document_hidden a" "\<not> (active a \<and> \<not> paused a)"
    using assms(2) ps(5,6) by (simp_all add: a)
  then have t: "offTimeout b = None"
    unfolding b_def by (rule start_cancels_timer)
  then have adv: "advance d2 b = b\<lparr>clock := clock b + d2\<rparr>"
    by (rule advance_no_timer)
  obtain es where es: "trace b = trace a @ es"
    unfolding b_def using trace_start by blast
  have "stopped_of (since a b) = []"
    unfolding b_def by (rule start_stops_nothing)
  then have "stopped_of es = []"
    using es by (simp add: since_def)
  then have n: "stopped_of (since s (advance d2 b)) = []"
    by (simp add: adv since_def es a ps(4))
  have k: "srcObject (video (advance d2 b)) = srcObject (video s)"
    if "srcObject (video s) \<noteq> None"
  proof -
    from that obtain st where st: "srcObject (video s) = Some st" by auto
    then have "srcObject (video a) = Some st"
      by (simp add: a ps(3))
    then have "srcObject (video b) = Some st"
      unfolding b_def by (rule start_keeps_stream)
    then show ?thesis by (simp add: adv st)
  qed
  show "offTimeout (snd (start p (advance d1 (pause s)))) = None"
    using t unfolding a_def b_def .
  show "stopped_of (since s (advance d2 (snd (start p (advance d1 (pause s)))))) = []"
    using n unfolding a_def b_def .
  show "srcObject (video (advance d2 (snd (start p (advance d1 (pause s))))))
           = srcObject (video s)" if "srcObject (video s) \<noteq> None"
    using k [OF that] unfolding a_def b_def .
qed

lemma pause_start_hidden:
  assumes "active s" and "document_hidden s"
    and "clock s + d1 < (case offTimeout s of None \<Rightarrow> clock s + 300 | Some due \<Rightarrow> due)"
    and "(case offTimeout s of None \<Rightarrow> clock s + 300 | Some due \<Rightarrow> due) \<le> clock s + d1 + d2"
  shows "offTimeout (snd (start p (advance d1 (pause s)))) = offTimeout (pause s)"
    and "stopped_of (since s (advance d2 (snd (start p (advance d1 (pause s)))))) =
           map track_id (case srcObject (video s) of Some st \<Rightarrow> getTracks st | None \<Rightarrow> [])"
    and "srcObject (video (advance d2 (snd (start p (advance d1 (pause s)))))) = None"
proof -
  note ps = pause_active [OF assms(1)]
  define due where "due = (case offTimeout s of None \<Rightarrow> clock s + 300 | Some due \<Rightarrow> due)"
  define a where "a = advance d1 (pause s)"
  have a: "a = (pause s)\<lparr>clock := clock s + d1\<rparr>"
    unfolding a_def using advance_early [OF ps(1), of d1] assms(3) ps(2) by simp
  define b where "b = snd (start p a)"
  have h: "document_hidden a \<or> (active a \<and> \<not> paused a)"
    using assms(2) ps(6) by (simp add: a)
  have t: "offTimeout b = Some due"
    unfolding b_def start_returns_early(1) [OF h] using ps(1) by (simp add: a due_def)
  have v: "srcObject (video b) = srcObject (video s)"
    unfolding b_def start_returns_early(2) [OF h] by (simp add: a ps(3))
  have c: "clock b = clock s + d1"
    unfolding b_def clock_start by (simp add: a)
  obtain es where es: "trace b = trace a @ es"
    unfolding b_def using trace_start by blast
  have "stopped_of (since a b) = []"
    unfolding b_def by (rule start_stops_nothing)
  then have e: "stopped_of es = []"
    using es by (simp add: since_def)
  have d: "due \<le> clock b + d2"
    using assms(4) c by (simp add: due_def)
  note rel = advance_due [OF t d]
  have 1: "offTimeout b = offTimeout (pause s)"
    using t ps(1) by (simp add: due_def)
  have 2: "stopped_of (since s (advance d2 b)) =
           map track_id (case srcObject (video s) of Some st \<Rightarrow> getTracks st | None \<Rightarrow> [])"
    by (simp add: rel(3) v es a ps(4) since_def stopped_of_append stopped_of_map e)
  show "offTimeout (snd (start p (advance d1 (pause s)))) = offTimeout (pause s)"
    using 1 unfolding a_def b_def .
  show "stopped_of (since s (advance d2 (snd (start p (advance d1 (pause s)))))) =
           map track_id (case srcObject (video s) of Some st \<Rightarrow> getTracks st | None \<Rightarrow> [])"
    using 2 unfolding a_def b_def .
  show "srcObject (video (advance d2 (snd (start p (advance d1 (pause s)))))) = None"
    using rel(1) unfolding a_def b_def .
qed

lemma pause_release:
  assumes "active s"
    and "(case offTimeout s of None \<Rightarrow> clock s + 300 | Some due \<Rightarrow> due) \<le> clock s + d"
  shows "offTimeout (advance d (pause s)) = None"
    and "srcObject (video (advance d (pause s))) = None"
    and "stopped_of (since s (advance d (pause s))) =
           map track_id (case srcObject (video s) of Some st \<Rightarrow> getTracks st | None \<Rightarrow> [])"
proof -
  note ps = pause_active [OF assms(1)]
  have due: "(case offTimeout s of None \<Rightarrow> clock s + 300 | Some due \<Rightarrow> due) \<le> clock (pause s) + d"
    using assms(2) ps(2) by simp
  note rel = advance_due [OF ps(1) due]
  show "offTimeout (advance d (pause s)) = None" by (rule rel(2))
  show "srcObject (video (advance d (pause s))) = None" by (rule rel(1))
  show "stopped_of (since s (advance d (pause s))) =
           map track_id (case srcObject (video s) of Some st \<Rightarrow> getTracks st | None \<Rightarrow> [])"
    by (simp add: rel(3) ps(3,4) since_def stopped_of_map)
qed

text \<open>
  Claim C3, as the code has it. \<open>pause()\<close> on an active session sets the release timer to
  300 milliseconds unless a timer is pending already, which it keeps; on a session that is
  not active it sets none. A call of \<open>start()\<close> that gets past its two early returns (the
  session is not both active and unpaused, and the document is not hidden) clears the
  timer; a call that returns early leaves the timer as it is. So with a visible document,
  \<open>pause()\<close> followed by \<open>start()\<close> before the pending timer is due (less than 300
  milliseconds later, when that \<open>pause()\<close> set it) stops no track, however much time passes
  afterwards, and keeps the stream attached. With a hidden document the timer is still
  pending after \<open>start()\<close>, and once it is due every track of the attached stream has been
  stopped and the video has no source. Without a \<open>start()\<close>, once the timer is due every
  track of the attached stream has been stopped, the video has no source and no timer is
  pending.
\<close>

theorem grace_timer:
  "(let due = (case offTimeout s of None \<Rightarrow> clock s + 300 | Some t \<Rightarrow> t);
        resumed = advance d2 (snd (start p (advance d1 (pause s))));
        tracks = (case srcObject (video s) of Some st \<Rightarrow> getTracks st | None \<Rightarrow> [])
    in (active s \<longrightarrow> offTimeout (pause s) = Some due)
     \<and> (\<not> active s \<longrightarrow> offTimeout (pause s) = offTimeout s)
     \<and> (\<not> document_hidden s \<and> \<not> (active s \<and> \<not> paused s) \<longrightarrow>
          offTimeout (snd (start p s)) = None)
     \<and> (document_hidden s \<or> (active s \<and> \<not> paused s) \<longrightarrow>
          offTimeout (snd (start p s)) = offTimeout s)
     \<and> (active s \<and> \<not> document_hidden s \<and> clock s + d1 < due \<longrightarrow>
          offTimeout (snd (start p (advance d1 (pause s)))) = None
          \<and> stopped_of (since s resumed) = []
          \<and> (srcObject (video s) \<noteq> None \<longrightarrow> srcObject (video resumed) = srcObject (video s)))
     \<and> (active s \<and> document_hidden s \<and> clock s + d1 < due \<and> due \<le> clock s + d1 + d2 \<longrightarrow>
          offTimeout (snd (start p (advance d1 (pause s)))) = Some due
          \<and> stopped_of (since s resumed) = map track_id tracks
          \<and> srcObject (video resumed) = None)
     \<and> (active s \<and> due \<le> clock s + d \<longrightarrow>
          offTimeout (advance d (pause s)) = None
          \<and> srcObject (video (advance d (pause s))) = None
          \<and> stopped_of (since s (advance d (pause s))) = map track_id tracks))"
proof -
  define due where "due = (case offTimeout s of None \<Rightarrow> clock s + 300 | Some t \<Rightarrow> t)"
  define resumed where "resumed = advance d2 (snd (start p (advance d1 (pause s))))"
  define tracks where
    "tracks = (case srcObject (video s) of Some st \<Rightarrow> getTracks st | None \<Rightarrow> [])"
  have 1: "active s \<longrightarrow> offTimeout (pause s) = Some due"
    unfolding due_def by (intro impI) (rule pause_active(1))
  have 2: "\<not> active s \<longrightarrow> offTimeout (pause s) = offTimeout s"
    by (intro impI) (rule pause_inactive(1))
  have 3: "\<not> document_hidden s \<and> \<not> (active s \<and> \<not> paused s) \<longrightarrow>
          offTimeout (snd (start p s)) = None"
    using start_cancels_timer [of s p] by blast
  have 4: "document_hidden s \<or> (active s \<and> \<not> paused s) \<longrightarrow>
          offTimeout (snd (start p s)) = offTimeout s"
    by (intro impI) (rule start_returns_early(1))
  have 5: "active s \<and> \<not> document_hidden s \<and> clock s + d1 < due \<longrightarrow>
          offTimeout (snd (start p (advance d1 (pause s)))) = None
          \<and> stopped_of (since s resumed) = []
          \<and> (srcObject (video s) \<noteq> None \<longrightarrow> srcObject (video resumed) = srcObject (video s))"
  proof (intro impI)
    assume h: "active s \<and> \<not> document_hidden s \<and> clock s + d1 < due"
    then have a: "active s" and v: "\<not> document_hidden s"
      and d: "clock s + d1 < (case offTimeout s of None \<Rightarrow> clock s + 300 | Some t \<Rightarrow> t)"
      unfolding due_def by blast+
    show "offTimeout (snd (start p (advance d1 (pause s)))) = None
          \<and> stopped_of (since s resumed) = []
          \<and> (srcObject (video s) \<noteq> None \<longrightarrow> srcObject (video resumed) = srcObject (video s))"
      unfolding resumed_def
      using pause_start_visible(1) [OF a v d] pause_start_visible(2) [OF a v d]
        pause_start_visible(3) [OF a v d]
      by blast
  qed
  have 6: "active s \<and> document_hidden s \<and> clock s + d1 < due \<and> due \<le> clock s + d1 + d2 \<longrightarrow>
          offTimeout (snd (start p (advance d1 (pause s)))) = Some due
          \<and> stopped_of (since s resumed) = map track_id tracks
          \<and> srcObject (video resumed) = None"
  proof (intro impI)
    assume h: "active s \<and> document_hidden s \<and> clock s + d1 < due \<and> due \<le> clock s + d1 + d2"
    then have a: "active s" and v: "document_hidden s"
      and d: "clock s + d1 < (case offTimeout s of None \<Rightarrow> clock s + 300 | Some t \<Rightarrow> t)"
      and e: "(case offTimeout s of None \<Rightarrow> clock s + 300 | Some t \<Rightarrow> t) \<le> clock s + d1 + d2"
      unfolding due_def by blast+
    have "offTimeout (snd (start p (advance d1 (pause s)))) = Some due"
      unfolding pause_start_hidden(1) [OF a v d e] due_def by (rule pause_active(1) [OF a])
    then show "offTimeout (snd (start p (advance d1 (pause s)))) = Some due
          \<and> stopped_of (since s resumed) = map track_id tracks
          \<and> srcObject (video resumed) = None"
      unfolding resumed_def tracks_def
      using pause_start_hidden(2) [OF a v d e] pause_start_hidden(3) [OF a v d e]
      by blast
  qed
  have 7: "active s \<and> due \<le> clock s + d \<longrightarrow>
          offTimeout (advance d (pause s)) = None
          \<and> srcObject (video (advance d (pause s))) = None
          \<and> stopped_of (since s (advance d (pause s))) = map track_id tracks"
  proof (intro impI)
    assume h: "active s \<and> due \<le> clock s + d"
    then have a: "active s"
      and e: "(case offTimeout s of None \<Rightarrow> clock s + 300 | Some t \<Rightarrow> t) \<le> clock s + d"
      unfolding due_def by blast+
    show "offTimeout (advance d (pause s)) = None
          \<and> srcObject (video (advance d (pause s))) = None
          \<and> stopped_of (since s (advance d (pause s))) = map track_id tracks"
      unfolding tracks_def
      using pause_release [OF a e] by blast
  qed
  show ?thesis
    unfolding Let_def due_def [symmetric] resumed_def [symmetric] tracks_def [symmetric]
    by (intro conjI 1 2 3 4 5 6 7)
qed


theorem grace_timer_witness:
  "stopped_of (since (run front_only demo [Start])
       (advance 500 (snd (start front_only (advance 100 (pause (run front_only demo [Start])))))))
     = []
   \<and> srcObject (video
       (advance 500 (snd (start front_only (advance 100 (pause (run front_only demo [Start])))))))
     = Some front_stream
   \<and> stopped_of (since (run front_only demo [Start])
       (advance 300 (pause (run front_only demo [Start])))) = [7]
   \<and> stopped_of (since (run front_only demo [Start, VisibilityChange True])
       (advance 200 (snd (start front_only
          (advance 100 (pause (run front_only demo [Start, VisibilityChange True])))))))
     = [7]
   \<and> offTimeout (snd (start front_only
          (advance 100 (pause (run front_only demo [Start, VisibilityChange True])))))
     = Some 300
   \<and> offTimeout (pause demo) = None"
proof -
  let ?s = "run front_only demo [Start]"
  let ?h = "run front_only demo [Start, VisibilityChange True]"
  have s: "active ?s" "\<not> document_hidden ?s" "offTimeout ?s = None" "clock ?s = 0"
    "srcObject (video ?s) = Some front_stream"
    by (simp_all add: model_defs)
  have h: "active ?h" "document_hidden ?h" "offTimeout ?h = Some 300" "clock ?h = 0"
    "srcObject (video ?h) = Some front_stream"
    by (simp_all add: model_defs)
  have d: "\<not> active demo" "offTimeout demo = None"
    by (simp_all add: model_defs)
  have 1: "stopped_of (since ?s (advance 500 (snd (start front_only (advance 100 (pause ?s)))))) = []
     \<and> srcObject (video (advance 500 (snd (start front_only (advance 100 (pause ?s))))))
        = Some front_stream
     \<and> stopped_of (since ?s (advance 300 (pause ?s))) = [7]"
    using grace_timer [where s = ?s and p = front_only and ?d1.0 = 100 and ?d2.0 = 500 and d = 300] s
    by (simp add: Let_def front_stream_tracks)
  have 2: "stopped_of (since ?h (advance 200 (snd (start front_only (advance 100 (pause ?h)))))) = [7]
     \<and> offTimeout (snd (start front_only (advance 100 (pause ?h)))) = Some 300"
    using grace_timer [where s = ?h and p = front_only and ?d1.0 = 100 and ?d2.0 = 200 and d = 300] h
    by (simp add: Let_def front_stream_tracks)
  have 3: "offTimeout (pause demo) = None"
    using grace_timer [where s = demo and p = front_only and ?d1.0 = 0 and ?d2.0 = 0 and d = 0] d
    by (simp add: Let_def)
  show ?thesis
    using 1 2 3 by blast
qed

text \<open>
  While the document is hidden, \<open>start()\<close> returns before \<open>clearTimeout\<close>: the timer set by
  the \<open>pause()\<close> of the visibility listener stays pending after \<open>start()\<close>, and the track is
  stopped 300 milliseconds after that \<open>pause()\<close>. And a second \<open>pause()\<close> does not set the
  pending timer anew: with a visible document, \<open>start()\<close> 150 milliseconds after a
  \<open>pause()\<close> that came 200 milliseconds after the first one finds the track stopped.
\<close>

theorem hidden_start_keeps_timer:
  "offTimeout (run front_only demo [Start, VisibilityChange True, Pause, Advance 100]) = Some 300
   \<and> offTimeout (run front_only demo [Start, VisibilityChange True, Pause, Advance 100, Start])
      = Some 300
   \<and> stopped_of (trace (run front_only demo
        [Start, VisibilityChange True, Pause, Advance 100, Start, Advance 200])) = [7]
   \<and> srcObject (video (run front_only demo
        [Start, VisibilityChange True, Pause, Advance 100, Start, Advance 200])) = None
   \<and> offTimeout (run front_only demo [Start, Pause, Advance 200, Pause]) = Some 300
   \<and> stopped_of (trace (run front_only demo
        [Start, Pause, Advance 200, Pause, Advance 150, Start])) = [7]"
  by (simp add: model_defs)

subsection \<open>The engine of a session\<close>

lemma createQrEngine_cases:
  "createQrEngine p n =
     (if barcodeDetector_in_window p \<and> ''qr_code'' \<in> set (getSupportedFormats p)
      then BarcodeDetector n else Worker n)"
  by (simp add: createQrEngine_def Let_def)

lemma engine_start:
  "qrEnginePromise (snd (start p s)) = qrEnginePromise s"
  "engines_created (snd (start p s)) = engines_created s"
  by (auto simp: start_def acquire_def emit_def emits_def video_play_def setVideoMirror_def
      Let_def split: option.splits prod.splits sum.splits)

lemma engine_pause:
  "qrEnginePromise (pause s) = qrEnginePromise s"
  "engines_created (pause s) = engines_created s"
  by (simp_all add: pause_def video_pause_def emit_def Let_def)

lemma engine_setFlash:
  "qrEnginePromise (snd (setFlash p on s)) = qrEnginePromise s"
  "engines_created (snd (setFlash p on s)) = engines_created s"
  by (auto simp: setFlash_def hasFlash_def emit_def Let_def
      split: option.splits prod.splits sum.splits)

lemma engine_scanFrame:
  "qrEnginePromise (scanFrame s) = qrEnginePromise s"
  "engines_created (scanFrame s) = engines_created s"
  by (simp_all add: scanFrame_def emit_def)

lemma engine_onSettled:
  assumes "\<forall>e. r = Rejected e \<longrightarrow> \<not> (active s \<and> contains ''service unavailable'' e)"
  shows "qrEnginePromise (onSettled p r s) = qrEnginePromise s"
    and "engines_created (onSettled p r s) = engines_created s"
  using assms
  by (auto simp: onSettled_def engine_scanFrame callOnDecodeError_def emit_def Let_def
      split: outcome.splits error_handler.splits)

lemma engine_step:
  assumes "\<forall>e. ev = Settled (Rejected e) \<longrightarrow>
             \<not> (active s \<and> 0 < decodes_in_flight s \<and> contains ''service unavailable'' e)"
  shows "qrEnginePromise (step p s ev) = qrEnginePromise s
       \<and> engines_created (step p s ev) = engines_created s"
proof (cases ev)
  case (Settled r)
  show ?thesis
  proof (cases "decodes_in_flight s = 0")
    case True
    then show ?thesis using Settled by simp
  next
    case False
    let ?t = "s\<lparr>decodes_in_flight := decodes_in_flight s - 1\<rparr>"
    have "\<forall>e. r = Rejected e \<longrightarrow> \<not> (active ?t \<and> contains ''service unavailable'' e)"
      using assms Settled False by simp
    from engine_onSettled [OF this, of p] show ?thesis
      using Settled False by simp
  qed
qed (simp_all add: engine_start engine_pause engine_setFlash engine_scanFrame
      stop_def destroy_def postWorkerMessage_def emit_def advance_def release_def emits_def
      onVisibilityChange_def updateSourceRect_def onPlay_def onAnimationFrame_def
      toggleFlash_def turnFlashOn_def turnFlashOff_def Let_def
      split: qr_engine.splits option.splits)

text \<open>
  Claim C8, as the code has it. An engine that is created is a native detector exactly when
  \<open>BarcodeDetector\<close> exists and lists the format \<open>qr_code\<close>, and a new worker otherwise. The
  constructor creates one engine and keeps it in \<open>_qrEnginePromise\<close>; a frame that is
  scanned goes to the engine kept there. Every event keeps that engine, with one
  exception: when a decoding is rejected with a message that contains
  \<open>service unavailable\<close> while the session is active, a new engine is created by the same
  rule and replaces it.
\<close>

theorem engine_choice:
  "createQrEngine p n =
     (if barcodeDetector_in_window p \<and> ''qr_code'' \<in> set (getSupportedFormats p)
      then BarcodeDetector n else Worker n)
   \<and> (let s0 = constructor p v hidden third size_arg facing_arg
      in qrEnginePromise s0 = createQrEngine p 0 \<and> engines_created s0 = 1
       \<and> filter (\<lambda>x. \<exists>g. x = CreateQrEngine g) (trace s0) = [CreateQrEngine (qrEnginePromise s0)])
   \<and> ((\<forall>e. ev = Settled (Rejected e) \<longrightarrow>
          \<not> (active s \<and> 0 < decodes_in_flight s \<and> contains ''service unavailable'' e)) \<longrightarrow>
        qrEnginePromise (step p s ev) = qrEnginePromise s
        \<and> engines_created (step p s ev) = engines_created s)
   \<and> (active s \<and> 0 < decodes_in_flight s \<and> contains ''service unavailable'' e \<longrightarrow>
        qrEnginePromise (step p s (Settled (Rejected e))) = createQrEngine p (engines_created s)
        \<and> engines_created (step p s (Settled (Rejected e))) = Suc (engines_created s))
   \<and> (0 < frames_requested s \<and> 1 < readyState (video s) \<longrightarrow>
        since s (step p s AnimationFrame) = [ScanImage (qrEnginePromise s)])"
proof -
  have 2: "(let s0 = constructor p v hidden third size_arg facing_arg
      in qrEnginePromise s0 = createQrEngine p 0 \<and> engines_created s0 = 1
       \<and> filter (\<lambda>x. \<exists>g. x = CreateQrEngine g) (trace s0) = [CreateQrEngine (qrEnginePromise s0)])"
    by (cases third) (simp_all add: constructor_def assignQrEngine_def emit_def Let_def)
  have 4: "qrEnginePromise (step p s (Settled (Rejected e))) = createQrEngine p (engines_created s)
        \<and> engines_created (step p s (Settled (Rejected e))) = Suc (engines_created s)"
    if "active s \<and> 0 < decodes_in_flight s \<and> contains ''service unavailable'' e"
    using that
    by (simp add: onSettled_def assignQrEngine_def engine_scanFrame callOnDecodeError_def
        emit_def Let_def split: error_handler.splits)
  have 5: "since s (step p s AnimationFrame) = [ScanImage (qrEnginePromise s)]"
    if "0 < frames_requested s \<and> 1 < readyState (video s)"
    using that by (simp add: onAnimationFrame_def emit_def since_def)
  show ?thesis
    using createQrEngine_cases [of p n] 2 engine_step [of ev s p] 4 5 by blast
qed

theorem engine_choice_witness:
  "qrEnginePromise demo = Worker 0
   \<and> qrEnginePromise (constructor no_camera fresh_video False Omitted None None)
      = BarcodeDetector 0
   \<and> qrEnginePromise (step front_only (run front_only demo scanning) (Settled (Fulfilled ''a'')))
      = Worker 0
   \<and> since (run front_only demo [Start, Play, VideoReady 4])
        (step front_only (run front_only demo [Start, Play, VideoReady 4]) AnimationFrame)
      = [ScanImage (Worker 0)]"
proof -
  let ?s = "run front_only demo scanning"
  let ?t = "run front_only demo [Start, Play, VideoReady 4]"
  have a: "\<forall>e. Settled (Fulfilled ''a'') = Settled (Rejected e) \<longrightarrow>
          \<not> (active ?s \<and> 0 < decodes_in_flight ?s \<and> contains ''service unavailable'' e)"
    by simp
  have b: "0 < frames_requested ?t \<and> 1 < readyState (video ?t)"
    by (simp add: model_defs)
  have q: "qrEnginePromise ?s = Worker 0" "qrEnginePromise ?t = Worker 0"
    by (simp_all add: model_defs)
  have 1: "qrEnginePromise demo = Worker 0"
    using engine_choice [where p = front_only and n = 0 and v = fresh_video and hidden = False
        and third = Omitted and size_arg = None and facing_arg = None, THEN conjunct1]
      engine_choice [where p = front_only and v = fresh_video and hidden = False
        and third = Omitted and size_arg = None and facing_arg = None,
        THEN conjunct2, THEN conjunct1]
    by (simp add: demo_def Let_def front_only_def)
  have 2: "qrEnginePromise (constructor no_camera fresh_video False Omitted None None)
      = BarcodeDetector 0"
    using engine_choice [where p = no_camera and n = 0 and v = fresh_video and hidden = False
        and third = Omitted and size_arg = None and facing_arg = None, THEN conjunct1]
      engine_choice [where p = no_camera and v = fresh_video and hidden = False
        and third = Omitted and size_arg = None and facing_arg = None,
        THEN conjunct2, THEN conjunct1]
    by (simp add: Let_def no_camera_def front_only_def)
  have 3: "qrEnginePromise (step front_only ?s (Settled (Fulfilled ''a''))) = Worker 0"
    using engine_choice [where p = front_only and s = ?s and ev = "Settled (Fulfilled ''a'')",
        THEN conjunct2, THEN conjunct2, THEN conjunct1, THEN mp, OF a] q(1)
    by simp
  have 4: "since ?t (step front_only ?t AnimationFrame) = [ScanImage (Worker 0)]"
    using engine_choice [where p = front_only and s = ?t,
        THEN conjunct2, THEN conjunct2, THEN conjunct2, THEN conjunct2, THEN mp, OF b] q(2)
    by simp
  show ?thesis
    by (intro conjI 1 2 3 4)
qed

text \<open>
  A rejection with \<open>service unavailable\<close> makes the session of the first demo page create a
  second engine.
\<close>

theorem engine_replaced_when_unavailable:
  "qrEnginePromise (run front_only demo scanning) = Worker 0
   \<and> qrEnginePromise (run front_only demo
        (scanning @ [Settled (Rejected ''Scanner error: service unavailable'')])) = Worker 1
   \<and> engines_created (run front_only demo
        (scanning @ [Settled (Rejected ''Scanner error: service unavailable'')])) = 2"
  by (simp add: model_defs)

end
